theory Spec2Isabelle
  imports Main "HOL-Library.Char_ord" "HOL-Library.List_Lexorder"
begin

section \<open>Python values used by the script\<close>

text \<open>
  Strings are \<open>char list\<close>; \<open>HOL-Library.Char_ord\<close> and \<open>HOL-Library.List_Lexorder\<close> order
  them by code point and then lexicographically, which is the order Python's \<open>sorted\<close>
  uses on \<open>str\<close>. A \<open>char\<close> is one of the first 256 code points.
\<close>

definition isspace :: "char \<Rightarrow> bool" where
  \<comment> \<open>\<open>str.isspace\<close> on the first 256 code points: TAB..CR, FS..US, SPACE, NEL, NBSP.\<close>
  "isspace c =
     (let n = (of_char c :: nat)
      in (9 \<le> n \<and> n \<le> 13) \<or> (28 \<le> n \<and> n \<le> 32) \<or> n = 133 \<or> n = 160)"

definition lstrip :: "string \<Rightarrow> string" where
  "lstrip s = dropWhile isspace s"

definition rstrip :: "string \<Rightarrow> string" where
  "rstrip s = rev (dropWhile isspace (rev s))"

definition strip :: "string \<Rightarrow> string" where
  "strip s = rstrip (lstrip s)"

definition endswith1 :: "string \<Rightarrow> string \<Rightarrow> bool" where
  \<comment> \<open>\<open>s.endswith(suffix)\<close> for one suffix.\<close>
  "endswith1 s suf =
     (length suf \<le> length s \<and> drop (length s - length suf) s = suf)"

definition endswith :: "string \<Rightarrow> string list \<Rightarrow> bool" where
  \<comment> \<open>\<open>s.endswith(tuple)\<close>: true when any member of the tuple is a suffix.\<close>
  "endswith s sufs = list_ex (endswith1 s) sufs"

fun join :: "string \<Rightarrow> string list \<Rightarrow> string" where
  "join sep [] = []"
| "join sep [x] = x"
| "join sep (x # y # ys) = x @ sep @ join sep (y # ys)"

text \<open>
  A cell value as \<open>openpyxl\<close> hands it out: nothing, text, or a value of another type
  (a number, a boolean, a date). Of a value that is not text the script observes only its
  truth value and what \<open>str\<close> returns for it, so these two are what the model keeps.
\<close>

datatype cell = NoneValue | Text string | NonText bool string

fun truthy :: "cell \<Rightarrow> bool" where
  "truthy NoneValue = False"
| "truthy (Text s) = (s \<noteq> [])"
| "truthy (NonText b r) = b"

fun str :: "cell \<Rightarrow> string" where
  "str NoneValue = ''None''"
| "str (Text s) = s"
| "str (NonText b r) = r"

datatype exn =
    RequestException  \<comment> \<open>\<open>requests.exceptions.RequestException\<close> and its subclasses\<close>
  | ParseError        \<comment> \<open>\<open>xml.etree.ElementTree.ParseError\<close>\<close>
  | AttributeError
  | ZeroDivisionError
  | OtherException    \<comment> \<open>any other subclass of \<open>Exception\<close>\<close>

section \<open>The remote service and the XML it answers with\<close>

datatype xml = Element (tag: string) (attrib: "(string \<times> string) list") (children: "xml list")

fun descendants :: "xml \<Rightarrow> xml list" where
  "descendants (Element t a cs) = concat (map (\<lambda>c. c # descendants c) cs)"

definition findall :: "string \<Rightarrow> xml \<Rightarrow> xml list" where
  \<comment> \<open>\<open>root.findall(".//t")\<close>: every descendant of the root with tag \<open>t\<close>, in document order.\<close>
  "findall t root = filter (\<lambda>e. tag e = t) (descendants root)"

definition get_attr :: "xml \<Rightarrow> string \<Rightarrow> string option" where
  \<comment> \<open>\<open>element.get(key)\<close>: \<open>None\<close> when the attribute is missing.\<close>
  "get_attr e k = map_of (attrib e) k"

text \<open>
  A request is the one entry of the \<open>params\<close> dictionary: the operation name and its
  pipe-delimited argument string. The session answers a request with an exception or with
  a status code and a body; the body is either unparseable or the element tree that
  \<open>ET.fromstring\<close> builds from it. The answer may depend on the requests sent before.
\<close>

type_synonym request = "string \<times> string"

datatype body = Malformed | Wellformed xml

datatype get_outcome = Raises exn | Reply nat body

type_synonym session = "request list \<Rightarrow> request \<Rightarrow> get_outcome"

text \<open>The effects of a run that can be observed from outside, in the order they happen.\<close>

datatype event =
    ReadCell nat nat          \<comment> \<open>\<open>sheet.cell(row, column).value\<close> read\<close>
  | WriteCell nat nat string  \<comment> \<open>\<open>sheet.cell(row, column).value = text\<close>\<close>
  | Get request               \<comment> \<open>\<open>session.get(LAXIMO_BASE_URL, params)\<close>\<close>
  | Sleep                     \<comment> \<open>\<open>time.sleep(REQUEST_DELAY)\<close>\<close>
  | Save string               \<comment> \<open>\<open>workbook.save(path)\<close>\<close>

primrec requests_of :: "event list \<Rightarrow> request list" where
  \<comment> \<open>The requests sent so far.\<close>
  "requests_of [] = []"
| "requests_of (e # es) = (case e of Get r \<Rightarrow> r # requests_of es | _ \<Rightarrow> requests_of es)"

primrec saves :: "event list \<Rightarrow> string list" where
  \<comment> \<open>The paths saved to so far.\<close>
  "saves [] = []"
| "saves (e # es) = (case e of Save p \<Rightarrow> p # saves es | _ \<Rightarrow> saves es)"

primrec visited :: "event list \<Rightarrow> nat list" where
  \<comment> \<open>The rows whose source cell (column 4) has been read so far.\<close>
  "visited [] = []"
| "visited (e # es) =
     (case e of ReadCell r c \<Rightarrow> (if c = 4 then r # visited es else visited es)
      | _ \<Rightarrow> visited es)"

definition raise_for_status :: "nat \<Rightarrow> exn + unit" where
  \<comment> \<open>\<open>HTTPError\<close>, a \<open>RequestException\<close>, for a 4xx or 5xx status.\<close>
  "raise_for_status status =
     (if 400 \<le> status \<and> status < 600 then Inl RequestException else Inr ())"

definition fromstring :: "body \<Rightarrow> exn + xml" where
  "fromstring b = (case b of Malformed \<Rightarrow> Inl ParseError | Wellformed root \<Rightarrow> Inr root)"

section \<open>LaximoAPI\<close>

record part =
  manufacturer :: "string option"
  oem :: "string option"
  formattedoem :: "string option"
  name :: "string option"

record detail_info = part +
  detailid :: "string option"

record replacement_info = part +
  rate :: "string option"

definition detail_of :: "xml \<Rightarrow> detail_info" where
  "detail_of detail =
     \<lparr>manufacturer = get_attr detail ''manufacturer'', oem = get_attr detail ''oem'',
      formattedoem = get_attr detail ''formattedoem'', name = get_attr detail ''name'',
      detailid = get_attr detail ''detailid''\<rparr>"

definition replacement_of :: "xml \<Rightarrow> replacement_info" where
  "replacement_of row =
     \<lparr>manufacturer = get_attr row ''manufacturer'', oem = get_attr row ''oem'',
      formattedoem = get_attr row ''formattedoem'', name = get_attr row ''name'',
      rate = get_attr row ''rate''\<rparr>"

definition find_oem_params :: "string \<Rightarrow> request" where
  "find_oem_params oem' =
     (''FindOEM'', ''Locale=ru_RU|OEM='' @ oem' @ ''|ReplacementTypes=|Options='')"

definition find_replacements_params :: "string \<Rightarrow> request" where
  "find_replacements_params detail_id =
     (''FindReplacements'', ''Locale=ru_RU|DetailId='' @ detail_id)"

definition find_oem :: "session \<Rightarrow> string \<Rightarrow> event list \<Rightarrow> (exn + detail_info list) \<times> event list" where
  \<comment> \<open>The result is the list returned, or the exception that leaves the method; the
      trace grows by the request sent. A \<open>RequestException\<close> and a \<open>ParseError\<close> are
      logged and answered with the empty list, any other exception is not caught.\<close>
  "find_oem sess oem' tr =
     (let params = find_oem_params oem';
          tr' = tr @ [Get params]
      in case sess (requests_of tr) params of
           Raises e \<Rightarrow>
             (if e = RequestException \<or> e = ParseError then (Inr [], tr') else (Inl e, tr'))
         | Reply status b \<Rightarrow>
             (case raise_for_status status of
                Inl e \<Rightarrow> (Inr [], tr')
              | Inr _ \<Rightarrow>
                  (case fromstring b of
                     Inl e \<Rightarrow> (Inr [], tr')
                   | Inr root \<Rightarrow> (Inr (map detail_of (findall ''detail'' root)), tr'))))"

definition find_replacements ::
  "session \<Rightarrow> string \<Rightarrow> event list \<Rightarrow> (exn + replacement_info list) \<times> event list" where
  "find_replacements sess detail_id tr =
     (let params = find_replacements_params detail_id;
          tr' = tr @ [Get params]
      in case sess (requests_of tr) params of
           Raises e \<Rightarrow>
             (if e = RequestException \<or> e = ParseError then (Inr [], tr') else (Inl e, tr'))
         | Reply status b \<Rightarrow>
             (case raise_for_status status of
                Inl e \<Rightarrow> (Inr [], tr')
              | Inr _ \<Rightarrow>
                  (case fromstring b of
                     Inl e \<Rightarrow> (Inr [], tr')
                   | Inr root \<Rightarrow> (Inr (map replacement_of (findall ''row'' root)), tr'))))"

section \<open>ExcelProcessor\<close>

definition SAVE_INTERVAL :: nat where
  "SAVE_INTERVAL = 100"

subsection \<open>\<open>os.path.splitext\<close>\<close>

definition rfind :: "char \<Rightarrow> string \<Rightarrow> int" where
  \<comment> \<open>\<open>p.rfind(c)\<close>: the last index of \<open>c\<close>, or \<open>-1\<close>.\<close>
  "rfind c p =
     (if c \<in> set p then int (length p - 1 - length (takeWhile (\<lambda>x. x \<noteq> c) (rev p))) else - 1)"

function splitext_loop :: "string \<Rightarrow> nat \<Rightarrow> nat \<Rightarrow> string \<times> string" where
  \<comment> \<open>The \<open>while\<close> of \<open>genericpath._splitext\<close>, which skips the leading dots of the
      file name.\<close>
  "splitext_loop p dotIndex filenameIndex =
     (if filenameIndex < dotIndex then
        (if take 1 (drop filenameIndex p) \<noteq> ''.'' then (take dotIndex p, drop dotIndex p)
         else splitext_loop p dotIndex (Suc filenameIndex))
      else (p, []))"
  by pat_completeness auto
termination
  by (relation "measure (\<lambda>(p, dotIndex, filenameIndex). dotIndex - filenameIndex)") auto

declare splitext_loop.simps [simp del]

definition splitext :: "string \<Rightarrow> string \<times> string" where
  "splitext p =
     (let sepIndex = rfind (CHR ''/'') p;
          dotIndex = rfind (CHR ''.'') p
      in if dotIndex > sepIndex then splitext_loop p (nat dotIndex) (nat (sepIndex + 1))
         else (p, []))"

subsection \<open>State and environment\<close>

record workbook =
  cells :: "nat \<times> nat \<Rightarrow> cell"  \<comment> \<open>the active sheet, by (row, column)\<close>
  max_row :: nat

text \<open>
  What the run depends on outside the script: the remote session, what
  \<open>openpyxl.load_workbook\<close> gives for a path (\<open>None\<close> when it raises), and whether
  \<open>workbook.save\<close> to a path goes through (\<open>False\<close> when it raises).
\<close>

record env =
  session_get :: session
  openpyxl_load :: "string \<Rightarrow> workbook option"
  workbook_save :: "string \<Rightarrow> bool"

record processor =
  input_file :: string
  output_file :: string
  sheet :: "nat \<times> nat \<Rightarrow> cell"
  total_rows :: nat
  processed_rows :: nat
  success_count :: nat
  error_count :: nat
  no_data_count :: nat
  trace :: "event list"

definition ExcelProcessor :: "string \<Rightarrow> string \<Rightarrow> processor" where
  \<comment> \<open>\<open>__init__\<close>; the workbook that is not loaded yet is a sheet without values.\<close>
  "ExcelProcessor input_file' output_file' =
     \<lparr>input_file = input_file', output_file = output_file', sheet = (\<lambda>_. NoneValue),
      total_rows = 0, processed_rows = 0, success_count = 0, error_count = 0,
      no_data_count = 0, trace = []\<rparr>"

definition load_workbook :: "env \<Rightarrow> processor \<Rightarrow> bool \<times> processor" where
  "load_workbook env st =
     (case openpyxl_load env (input_file st) of
        None \<Rightarrow> (False, st)
      | Some wb \<Rightarrow> (True, st\<lparr>sheet := cells wb, total_rows := max_row wb\<rparr>))"

definition save_path :: "bool \<Rightarrow> string \<Rightarrow> string" where
  "save_path is_final output_file' =
     (if \<not> is_final then (case splitext output_file' of (base, ext) \<Rightarrow> base @ ''_temp'' @ ext)
      else output_file')"

definition save_workbook :: "env \<Rightarrow> bool \<Rightarrow> processor \<Rightarrow> bool \<times> processor" where
  \<comment> \<open>The trace records the call of \<open>workbook.save\<close>; the result is \<open>False\<close> when it raised.\<close>
  "save_workbook env is_final st =
     (let path = save_path is_final (output_file st)
      in (workbook_save env path, st\<lparr>trace := trace st @ [Save path]\<rparr>))"

subsection \<open>One row\<close>

fun add_replacements :: "replacement_info list \<Rightarrow> string set \<Rightarrow> string set" where
  \<comment> \<open>\<open>for replacement in replacements\<close>, lines 236 to 239.\<close>
  "add_replacements [] all_cross_numbers = all_cross_numbers"
| "add_replacements (replacement # rest) all_cross_numbers =
     (case formattedoem replacement of
        None \<Rightarrow> add_replacements rest all_cross_numbers
      | Some formatted_oem \<Rightarrow>
          (if formatted_oem \<noteq> [] then add_replacements rest (insert formatted_oem all_cross_numbers)
           else add_replacements rest all_cross_numbers))"

fun all_cross_numbers ::
  "session \<Rightarrow> detail_info list \<Rightarrow> string set \<Rightarrow> event list \<Rightarrow> (exn + string set) \<times> event list" where
  \<comment> \<open>\<open>for detail in details\<close>, lines 226 to 239, from the set collected so far.\<close>
  "all_cross_numbers sess [] acc tr = (Inr acc, tr)"
| "all_cross_numbers sess (detail # rest) acc tr =
     (case detailid detail of
        None \<Rightarrow> all_cross_numbers sess rest acc tr
      | Some detail_id \<Rightarrow>
          (if detail_id = [] then all_cross_numbers sess rest acc tr
           else (case find_replacements sess detail_id (tr @ [Sleep]) of
                   (Inl e, tr') \<Rightarrow> (Inl e, tr')
                 | (Inr replacements, tr') \<Rightarrow>
                     all_cross_numbers sess rest (add_replacements replacements acc) tr')))"

definition cross_numbers_text :: "string set \<Rightarrow> string" where
  \<comment> \<open>\<open>", ".join(sorted(all_cross_numbers))\<close>\<close>
  "cross_numbers_text codes = join '', '' (sorted_list_of_set codes)"

definition new_description :: "cell \<Rightarrow> string \<Rightarrow> exn + string" where
  \<comment> \<open>Lines 250 to 258. \<open>current_description\<close> is the cell's value or, when that is
      falsy, the empty string; a truthy value that is not text has no \<open>rstrip\<close>.\<close>
  "new_description current_description text =
     (if truthy current_description then
        (case current_description of
           Text d \<Rightarrow>
             Inr ((if \<not> endswith (rstrip d) ['','', '' ''] then d @ '', '' else d) @ text)
         | _ \<Rightarrow> Inl AttributeError)
      else Inr text)"

datatype flow = Completed | Continue | Raised exn

definition log :: "event \<Rightarrow> processor \<Rightarrow> processor" where
  "log e st = st\<lparr>trace := trace st @ [e]\<rparr>"

definition no_data :: "processor \<Rightarrow> flow \<times> processor" where
  \<comment> \<open>\<open>self.no_data_count += 1; continue\<close>\<close>
  "no_data st = (Continue, st\<lparr>no_data_count := no_data_count st + 1\<rparr>)"

definition try_body :: "env \<Rightarrow> nat \<Rightarrow> processor \<Rightarrow> flow \<times> processor" where
  \<comment> \<open>The \<open>try\<close> block of the loop, lines 199 to 264: how it is left, and the state then.\<close>
  "try_body env row_idx st0 =
     (let st1 = log (ReadCell row_idx 4) st0;
          article = sheet st1 (row_idx, 4)
      in if \<not> truthy article then no_data st1
         else
           (let article' = strip (str article);
                st2 = log (ReadCell row_idx 6) st1;
                v = sheet st2 (row_idx, 6);
                current_description = (if truthy v then v else Text [])
            in case find_oem (session_get env) article' (trace st2) of
                 (Inl e, tr) \<Rightarrow> (Raised e, st2\<lparr>trace := tr\<rparr>)
               | (Inr details, tr) \<Rightarrow>
                   (if details = [] then no_data (st2\<lparr>trace := tr\<rparr>)
                    else (case all_cross_numbers (session_get env) details {} tr of
                            (Inl e, tr') \<Rightarrow> (Raised e, st2\<lparr>trace := tr'\<rparr>)
                          | (Inr codes, tr') \<Rightarrow>
                              (if codes = {} then no_data (st2\<lparr>trace := tr'\<rparr>)
                               else (case new_description current_description
                                            (cross_numbers_text codes) of
                                       Inl e \<Rightarrow> (Raised e, st2\<lparr>trace := tr'\<rparr>)
                                     | Inr d \<Rightarrow>
                                         (Completed,
                                          st2\<lparr>sheet := (sheet st2)((row_idx, 6) := Text d),
                                              trace := tr' @ [WriteCell row_idx 6 d],
                                              success_count := success_count st2 + 1\<rparr>)))))))"

subsection \<open>The loop and the run\<close>

definition progress :: "processor \<Rightarrow> exn + unit" where
  \<comment> \<open>The arithmetic of the progress report, lines 274 to 280: it divides by
      \<open>processed_rows\<close> and by \<open>total_rows\<close>. The times themselves are not modelled.\<close>
  "progress st =
     (if processed_rows st = 0 then Inl ZeroDivisionError
      else if total_rows st = 0 then Inl ZeroDivisionError
      else Inr ())"

definition after_try :: "env \<Rightarrow> processor \<Rightarrow> exn + processor" where
  \<comment> \<open>Lines 270 to 282, which a \<open>continue\<close> skips.\<close>
  "after_try env st0 =
     (let st = st0\<lparr>processed_rows := processed_rows st0 + 1\<rparr>
      in if processed_rows st mod SAVE_INTERVAL = 0 then
           (case progress st of
              Inl e \<Rightarrow> Inl e
            | Inr _ \<Rightarrow> Inr (snd (save_workbook env False st)))
         else Inr st)"

definition loop_body :: "env \<Rightarrow> nat \<Rightarrow> processor \<Rightarrow> exn + processor" where
  \<comment> \<open>One turn of the loop; \<open>except Exception\<close> catches every exception of the model.\<close>
  "loop_body env row_idx st =
     (case try_body env row_idx st of
        (Continue, st') \<Rightarrow> Inr st'
      | (Raised e, st') \<Rightarrow> after_try env (st'\<lparr>error_count := error_count st' + 1\<rparr>)
      | (Completed, st') \<Rightarrow> after_try env st')"

fun process_rows :: "env \<Rightarrow> nat list \<Rightarrow> processor \<Rightarrow> exn + processor" where
  "process_rows env [] st = Inr st"
| "process_rows env (row_idx # rest) st =
     (case loop_body env row_idx st of
        Inl e \<Rightarrow> Inl e
      | Inr st' \<Rightarrow> process_rows env rest st')"

definition process_file :: "env \<Rightarrow> processor \<Rightarrow> exn + bool \<times> processor" where
  \<comment> \<open>\<open>Inl\<close> is an exception that leaves \<open>process_file\<close>.\<close>
  "process_file env st0 =
     (case load_workbook env st0 of
        (False, st) \<Rightarrow> Inr (False, st)
      | (True, st) \<Rightarrow>
          (case process_rows env [2 ..< total_rows st + 1] st of
             Inl e \<Rightarrow> Inl e
           | Inr st' \<Rightarrow> Inr (save_workbook env True st')))"

definition checkpoint :: "processor \<Rightarrow> flow \<Rightarrow> string list" where
  \<comment> \<open>The paths saved to by the lines after the \<open>try\<close>, given how the \<open>try\<close> was left.\<close>
  "checkpoint st f =
     (if f \<noteq> Continue \<and> Suc (processed_rows st) mod SAVE_INTERVAL = 0
      then [save_path False (output_file st)] else [])"

section \<open>Concrete inputs\<close>

text \<open>
  The service of the end-to-end scenario: the code \<open>12345\<close> resolves to the identifiers
  \<open>d1\<close> and \<open>d2\<close>, whose replacements carry the codes \<open>X2, X1\<close> and \<open>X1, X3\<close>.
\<close>

definition scenario_oem :: xml where
  "scenario_oem =
     Element ''response'' []
       [Element ''FindOEM'' []
          [Element ''detail'' [(''detailid'', ''d1''), (''oem'', ''12345'')] [],
           Element ''detail'' [(''detailid'', ''d2''), (''oem'', ''12345'')] []]]"

definition scenario_d1 :: xml where
  "scenario_d1 =
     Element ''response'' []
       [Element ''FindReplacements'' []
          [Element ''row'' [(''formattedoem'', ''X2'')] [],
           Element ''row'' [(''formattedoem'', ''X1'')] []]]"

definition scenario_d2 :: xml where
  "scenario_d2 =
     Element ''response'' []
       [Element ''FindReplacements'' []
          [Element ''row'' [(''formattedoem'', ''X1'')] [],
           Element ''row'' [(''formattedoem'', ''X3'')] []]]"

definition scenario_session :: session where
  "scenario_session h q =
     (if q = find_oem_params ''12345'' then Reply 200 (Wellformed scenario_oem)
      else if q = find_replacements_params ''d1'' then Reply 200 (Wellformed scenario_d1)
      else if q = find_replacements_params ''d2'' then Reply 200 (Wellformed scenario_d2)
      else Raises RequestException)"

text \<open>
  A workbook with three data rows: row 2 has a code and a description that is a number (the
  merge raises), row 3 has no code, row 4 has a code with spaces around it and the
  description \<open>A, B\<close>.
\<close>

definition mixed_workbook :: workbook where
  "mixed_workbook =
     \<lparr>cells = (\<lambda>rc. if rc = (2, 4) then Text ''12345'' else if rc = (2, 6) then NonText True ''7''
                    else if rc = (4, 4) then Text '' 12345 '' else if rc = (4, 6) then Text ''A, B''
                    else NoneValue),
      max_row = 4\<rparr>"

definition mixed_env :: env where
  "mixed_env =
     \<lparr>session_get = scenario_session, openpyxl_load = (\<lambda>p. Some mixed_workbook),
      workbook_save = (\<lambda>p. True)\<rparr>"

definition mixed_loaded :: processor where
  "mixed_loaded = snd (load_workbook mixed_env (ExcelProcessor ''in.xlsx'' ''out.xlsx''))"

text \<open>The loaded state one processed row before the first checkpoint.\<close>

definition at_99 :: processor where
  "at_99 = mixed_loaded\<lparr>processed_rows := 99\<rparr>"

text \<open>The workbook of the end-to-end scenario: one data row with the code \<open>12345\<close>.\<close>

definition scenario_workbook :: workbook where
  "scenario_workbook =
     \<lparr>cells = (\<lambda>rc. if rc = (2, 4) then Text ''12345'' else NoneValue), max_row = 2\<rparr>"

definition scenario_env :: env where
  "scenario_env =
     \<lparr>session_get = scenario_session, openpyxl_load = (\<lambda>p. Some scenario_workbook),
      workbook_save = (\<lambda>p. True)\<rparr>"

definition scenario_loaded :: processor where
  "scenario_loaded = snd (load_workbook scenario_env (ExcelProcessor ''in.xlsx'' ''out.xlsx''))"

text \<open>A loaded state whose row 2 has a code of two spaces.\<close>

definition spaces_loaded :: processor where
  "spaces_loaded =
     mixed_loaded\<lparr>sheet := (\<lambda>rc. if rc = (2, 4) then Text ''  '' else NoneValue)\<rparr>"

text \<open>
  A service whose replacement records carry no code: the attribute is missing in one and
  empty in the other.
\<close>

definition nocode_rows :: xml where
  "nocode_rows =
     Element ''response'' []
       [Element ''FindReplacements'' []
          [Element ''row'' [(''oem'', ''X 1''), (''manufacturer'', ''M'')] [],
           Element ''row'' [(''oem'', ''X 2''), (''formattedoem'', '''')] []]]"

definition nocode_session :: session where
  "nocode_session h q =
     (if q = find_oem_params ''12345'' then Reply 200 (Wellformed scenario_oem)
      else Reply 200 (Wellformed nocode_rows))"

definition nocode_env :: env where
  "nocode_env =
     \<lparr>session_get = nocode_session, openpyxl_load = (\<lambda>p. Some scenario_workbook),
      workbook_save = (\<lambda>p. True)\<rparr>"



section \<open>Properties\<close>

subsection \<open>Traces\<close>

lemma requests_of_append: "requests_of (xs @ ys) = requests_of xs @ requests_of ys"
  by (induction xs) (simp_all split: event.splits)

lemma saves_append: "saves (xs @ ys) = saves xs @ saves ys"
  by (induction xs) (simp_all split: event.splits)

lemma visited_append: "visited (xs @ ys) = visited xs @ visited ys"
  by (induction xs) (simp_all split: event.splits)

lemma find_oem_trace: "snd (find_oem sess c tr) = tr @ [Get (find_oem_params c)]"
  by (simp add: find_oem_def Let_def split: get_outcome.splits sum.splits)

lemma find_replacements_trace:
  "snd (find_replacements sess d tr) = tr @ [Get (find_replacements_params d)]"
  by (simp add: find_replacements_def Let_def split: get_outcome.splits sum.splits)

lemma all_cross_numbers_trace:
  "all_cross_numbers sess ds acc tr = (r, tr') \<Longrightarrow>
     saves tr' = saves tr \<and> visited tr' = visited tr"
proof (induction ds arbitrary: acc tr)
  case Nil
  then show ?case by simp
next
  case (Cons d ds)
  show ?case
  proof (cases "detailid d")
    case None
    with Cons show ?thesis by simp
  next
    case (Some i)
    show ?thesis
    proof (cases "i = []")
      case True
      with Some Cons show ?thesis by simp
    next
      case False
      obtain q where q: "find_replacements sess i (tr @ [Sleep]) = (q, tr @ [Sleep, Get (find_replacements_params i)])"
        using find_replacements_trace [of sess i "tr @ [Sleep]"]
        by (cases "find_replacements sess i (tr @ [Sleep])") simp
      show ?thesis
      proof (cases q)
        case (Inl e)
        with Cons.prems Some False q show ?thesis
          by (auto simp: saves_append visited_append)
      next
        case (Inr rs)
        with Cons.prems Some False q
        have "all_cross_numbers sess ds (add_replacements rs acc)
                (tr @ [Sleep, Get (find_replacements_params i)]) = (r, tr')"
          by simp
        from Cons.IH [OF this] show ?thesis
          by (simp add: saves_append visited_append)
      qed
    qed
  qed
qed

lemma add_replacements_eq:
  "add_replacements rs acc = acc \<union> {c. c \<noteq> [] \<and> Some c \<in> formattedoem ` set rs}"
  by (induction rs arbitrary: acc) (auto split: option.splits)

lemma try_body_frame:
  assumes "try_body env i st = (f, st')"
  shows "input_file st' = input_file st \<and> output_file st' = output_file st \<and>
         total_rows st' = total_rows st \<and> processed_rows st' = processed_rows st \<and>
         error_count st' = error_count st \<and>
         success_count st' = success_count st + (if f = Completed then 1 else 0) \<and>
         no_data_count st' = no_data_count st + (if f = Continue then 1 else 0) \<and>
         saves (trace st') = saves (trace st) \<and>
         visited (trace st') = visited (trace st) @ [i] \<and>
         (f \<noteq> Completed \<longrightarrow> sheet st' = sheet st) \<and>
         (\<forall>rc. rc \<noteq> (i, 6) \<longrightarrow> sheet st' rc = sheet st rc)"
proof (cases "truthy (sheet st (i, 4))")
  case False
  with assms show ?thesis
    by (auto simp: try_body_def no_data_def log_def Let_def saves_append visited_append)
next
  case True
  define tr2 where "tr2 = trace st @ [ReadCell i 4, ReadCell i 6]"
  define a where "a = strip (str (sheet st (i, 4)))"
  obtain r where r: "find_oem (session_get env) a tr2 = (r, tr2 @ [Get (find_oem_params a)])"
    using find_oem_trace [of "session_get env" a tr2]
    by (cases "find_oem (session_get env) a tr2") simp
  show ?thesis
  proof (cases r)
    case (Inl e)
    with assms True r show ?thesis
      by (auto simp: try_body_def no_data_def log_def Let_def saves_append visited_append
          tr2_def a_def)
  next
    case (Inr details)
    show ?thesis
    proof (cases "details = []")
      case True
      with assms \<open>truthy (sheet st (i, 4))\<close> r Inr show ?thesis
        by (auto simp: try_body_def no_data_def log_def Let_def saves_append visited_append
            tr2_def a_def)
    next
      case False
      obtain q tr' where q: "all_cross_numbers (session_get env) details {}
          (tr2 @ [Get (find_oem_params a)]) = (q, tr')"
        by (cases "all_cross_numbers (session_get env) details {}
          (tr2 @ [Get (find_oem_params a)])") simp
      from all_cross_numbers_trace [OF q]
      have t: "saves tr' = saves (trace st)" "visited tr' = visited (trace st) @ [i]"
        by (simp_all add: tr2_def saves_append visited_append)
      from assms \<open>truthy (sheet st (i, 4))\<close> r Inr False q t show ?thesis
        by (auto simp: try_body_def no_data_def log_def Let_def saves_append visited_append
            tr2_def a_def split: sum.splits if_splits)
    qed
  qed
qed

subsection \<open>The merge\<close>

lemma rstrip_not_space: "rstrip d \<noteq> [] \<Longrightarrow> \<not> isspace (last (rstrip d))"
proof -
  assume a: "rstrip d \<noteq> []"
  then have "dropWhile isspace (rev d) \<noteq> []" by (simp add: rstrip_def)
  then have "\<not> isspace (hd (dropWhile isspace (rev d)))" by (rule hd_dropWhile)
  moreover have "last (rstrip d) = hd (dropWhile isspace (rev d))"
    using \<open>dropWhile isspace (rev d) \<noteq> []\<close> by (simp add: rstrip_def last_rev)
  ultimately show ?thesis by simp
qed

lemma endswith1_last: "endswith1 s [c] \<longleftrightarrow> s \<noteq> [] \<and> last s = c"
proof (cases s rule: rev_cases)
  case Nil
  then show ?thesis by (simp add: endswith1_def)
next
  case (snoc ys y)
  then show ?thesis by (auto simp: endswith1_def)
qed

lemma space_test_dead: "endswith (rstrip d) ['','', '' ''] = endswith1 (rstrip d) '',''"
proof -
  have "\<not> endswith1 (rstrip d) '' ''"
    using rstrip_not_space [of d] by (auto simp: endswith1_last isspace_def)
  then show ?thesis by (simp add: endswith_def)
qed

lemma new_description_text:
  "d \<noteq> [] \<Longrightarrow> new_description (Text d) t =
     Inr (d @ (if endswith1 (rstrip d) '','' then [] else '', '') @ t)"
  by (simp add: new_description_def space_test_dead)

text \<open>The three merges of the specification's examples come out as it says.\<close>

lemma merge_examples:
  "new_description (Text ''A, B'') (cross_numbers_text {''C'', ''D''}) = Inr ''A, B, C, D'' \<and>
   new_description (Text ''A,'') (cross_numbers_text {''C''}) = Inr ''A,C'' \<and>
   new_description (Text []) (cross_numbers_text {''C'', ''D''}) = Inr ''C, D''"
  by code_simp

text \<open>
  C3. The merge separator rule: a non-empty description gets \<open>", "\<close> appended before the
  rendered codes unless it already ends in whitespace or a comma. The code tests
  \<open>current_description.rstrip().endswith((",", " "))\<close>: after \<open>rstrip\<close> nothing ends in a
  space (\<open>space_test_dead\<close>), so a description that ends in whitespace and not in a comma
  gets the separator all the same. The description \<open>"A "\<close> with the new code \<open>C\<close>
  becomes \<open>"A , C"\<close>.
\<close>

theorem merge_trailing_space:
  "new_description (Text ''A '') (cross_numbers_text {''C''}) = Inr ''A , C''"
  by code_simp

subsection \<open>The lookup client\<close>



subsection \<open>The loop\<close>

lemma after_try_ok:
  assumes "0 < total_rows st"
  shows "after_try env st =
     Inr (st\<lparr>processed_rows := Suc (processed_rows st),
             trace := trace st @ (if Suc (processed_rows st) mod SAVE_INTERVAL = 0
                                  then [Save (save_path False (output_file st))] else [])\<rparr>)"
  using assms by (simp add: after_try_def progress_def save_workbook_def Let_def)

lemma loop_body_ok:
  assumes "0 < total_rows st"
  shows "\<exists>st'. loop_body env i st = Inr st' \<and>
     total_rows st' = total_rows st \<and> output_file st' = output_file st \<and>
     visited (trace st') = visited (trace st) @ [i] \<and>
     no_data_count st' = no_data_count st + (if fst (try_body env i st) = Continue then 1 else 0) \<and>
     success_count st' = success_count st + (if fst (try_body env i st) = Completed then 1 else 0) \<and>
     error_count st' = error_count st +
        (if fst (try_body env i st) = Continue \<or> fst (try_body env i st) = Completed then 0 else 1) \<and>
     processed_rows st' = processed_rows st + (if fst (try_body env i st) = Continue then 0 else 1) \<and>
     saves (trace st') = saves (trace st) @ checkpoint st (fst (try_body env i st)) \<and>
     (checkpoint st (fst (try_body env i st)) \<noteq> [] \<longrightarrow>
        last (trace st') = Save (save_path False (output_file st))) \<and>
     (fst (try_body env i st) \<noteq> Completed \<longrightarrow> sheet st' = sheet st) \<and>
     (\<forall>rc. rc \<noteq> (i, 6) \<longrightarrow> sheet st' rc = sheet st rc)"
proof -
  obtain f st1 where t: "try_body env i st = (f, st1)"
    by (cases "try_body env i st") simp
  note fr = try_body_frame [OF t]
  show ?thesis
  proof (cases f)
    case Continue
    with t fr show ?thesis by (simp add: loop_body_def checkpoint_def)
  next
    case Completed
    from fr assms have "0 < total_rows st1" by simp
    from after_try_ok [OF this, of env] t fr Completed show ?thesis
      by (simp add: loop_body_def checkpoint_def saves_append visited_append)
  next
    case (Raised e)
    from fr assms have "0 < total_rows (st1\<lparr>error_count := error_count st1 + 1\<rparr>)" by simp
    from after_try_ok [OF this, of env] t fr Raised show ?thesis
      by (simp add: loop_body_def checkpoint_def saves_append visited_append)
  qed
qed

lemma checkpoint_count:
  "length (checkpoint st f) = (processed_rows st + (if f = Continue then 0 else 1)) div SAVE_INTERVAL
     - processed_rows st div SAVE_INTERVAL"
  by (simp add: checkpoint_def div_Suc)

lemma checkpoint_replicate:
  "checkpoint st f = replicate (length (checkpoint st f)) (save_path False (output_file st))"
  by (simp add: checkpoint_def)

lemma process_rows_ok:
  assumes "0 < total_rows st"
  shows "\<exists>st'. process_rows env rows st = Inr st' \<and>
     total_rows st' = total_rows st \<and> output_file st' = output_file st \<and>
     visited (trace st') = visited (trace st) @ rows \<and>
     no_data_count st \<le> no_data_count st' \<and> success_count st \<le> success_count st' \<and>
     error_count st \<le> error_count st' \<and> processed_rows st \<le> processed_rows st' \<and>
     success_count st' + error_count st' + no_data_count st' =
       success_count st + error_count st + no_data_count st + length rows \<and>
     processed_rows st' + success_count st + error_count st =
       processed_rows st + success_count st' + error_count st' \<and>
     saves (trace st') = saves (trace st) @
       replicate (processed_rows st' div SAVE_INTERVAL - processed_rows st div SAVE_INTERVAL)
         (save_path False (output_file st))"
  using assms
proof (induction rows arbitrary: st)
  case Nil
  then show ?case by simp
next
  case (Cons i rows)
  from loop_body_ok [OF Cons.prems, of env i] obtain st1 where
    l: "loop_body env i st = Inr st1" and
    f: "total_rows st1 = total_rows st" "output_file st1 = output_file st"
       "visited (trace st1) = visited (trace st) @ [i]"
       "no_data_count st1 = no_data_count st + (if fst (try_body env i st) = Continue then 1 else 0)"
       "success_count st1 = success_count st + (if fst (try_body env i st) = Completed then 1 else 0)"
       "error_count st1 = error_count st +
        (if fst (try_body env i st) = Continue \<or> fst (try_body env i st) = Completed then 0 else 1)"
       "processed_rows st1 = processed_rows st + (if fst (try_body env i st) = Continue then 0 else 1)"
       "saves (trace st1) = saves (trace st) @ checkpoint st (fst (try_body env i st))"
    by blast
  from f Cons.prems have "0 < total_rows st1" by simp
  from Cons.IH [OF this] obtain st2 where
    p: "process_rows env rows st1 = Inr st2" and
    g: "total_rows st2 = total_rows st1" "output_file st2 = output_file st1"
       "visited (trace st2) = visited (trace st1) @ rows"
       "no_data_count st1 \<le> no_data_count st2" "success_count st1 \<le> success_count st2"
       "error_count st1 \<le> error_count st2" "processed_rows st1 \<le> processed_rows st2"
       "success_count st2 + error_count st2 + no_data_count st2 =
         success_count st1 + error_count st1 + no_data_count st1 + length rows"
       "processed_rows st2 + success_count st1 + error_count st1 =
         processed_rows st1 + success_count st2 + error_count st2"
       "saves (trace st2) = saves (trace st1) @
         replicate (processed_rows st2 div SAVE_INTERVAL - processed_rows st1 div SAVE_INTERVAL)
           (save_path False (output_file st1))"
    by blast
  have le1: "processed_rows st \<le> processed_rows st1" using f by simp
  have d1: "processed_rows st div SAVE_INTERVAL \<le> processed_rows st1 div SAVE_INTERVAL"
    using le1 by (rule div_le_mono)
  have d2: "processed_rows st1 div SAVE_INTERVAL \<le> processed_rows st2 div SAVE_INTERVAL"
    using g(7) by (rule div_le_mono)
  have c: "checkpoint st (fst (try_body env i st)) =
      replicate (processed_rows st1 div SAVE_INTERVAL - processed_rows st div SAVE_INTERVAL)
        (save_path False (output_file st))"
    using checkpoint_replicate [of st "fst (try_body env i st)"]
      checkpoint_count [of st "fst (try_body env i st)"] f(7) by simp
  have s: "saves (trace st2) = saves (trace st) @
       replicate (processed_rows st2 div SAVE_INTERVAL - processed_rows st div SAVE_INTERVAL)
         (save_path False (output_file st))"
  proof -
    have "(processed_rows st1 div SAVE_INTERVAL - processed_rows st div SAVE_INTERVAL) +
          (processed_rows st2 div SAVE_INTERVAL - processed_rows st1 div SAVE_INTERVAL) =
          processed_rows st2 div SAVE_INTERVAL - processed_rows st div SAVE_INTERVAL"
      using d1 d2 by simp
    then show ?thesis
      using g(10) f(8) f(2) c by (simp add: replicate_add [symmetric])
  qed
  have "process_rows env (i # rows) st = Inr st2" using l p by simp
  moreover have "total_rows st2 = total_rows st" "output_file st2 = output_file st"
    using f g by simp_all
  moreover have "visited (trace st2) = visited (trace st) @ i # rows" using f g by simp
  moreover have "no_data_count st \<le> no_data_count st2" "success_count st \<le> success_count st2"
    "error_count st \<le> error_count st2" "processed_rows st \<le> processed_rows st2"
    using f g by simp_all
  moreover have "success_count st2 + error_count st2 + no_data_count st2 =
       success_count st + error_count st + no_data_count st + length (i # rows)"
    using f g by (simp split: if_splits)
  moreover have "processed_rows st2 + success_count st + error_count st =
       processed_rows st + success_count st2 + error_count st2"
    using f g by (simp split: if_splits)
  ultimately show ?case using s by blast
qed

lemma process_rows_append:
  "process_rows env (xs @ ys) st =
     (case process_rows env xs st of Inl e \<Rightarrow> Inl e | Inr st1 \<Rightarrow> process_rows env ys st1)"
  by (induction xs arbitrary: st) (simp_all split: sum.splits)

subsection \<open>The checkpoint path\<close>

lemma splitext_loop_join: "fst (splitext_loop p d k) @ snd (splitext_loop p d k) = p"
proof (induction p d k rule: splitext_loop.induct)
  case (1 p dotIndex filenameIndex)
  show ?case
  proof (cases "filenameIndex < dotIndex")
    case True
    show ?thesis
    proof (cases "take 1 (drop filenameIndex p) = ''.''")
      case True
      with \<open>filenameIndex < dotIndex\<close> "1" show ?thesis
        by (simp add: splitext_loop.simps [of p dotIndex filenameIndex])
    next
      case False
      with \<open>filenameIndex < dotIndex\<close> show ?thesis
        by (simp add: splitext_loop.simps [of p dotIndex filenameIndex])
    qed
  next
    case False
    then show ?thesis by (simp add: splitext_loop.simps [of p dotIndex filenameIndex])
  qed
qed

lemma splitext_join: "fst (splitext p) @ snd (splitext p) = p"
  by (simp add: splitext_def Let_def splitext_loop_join)

lemma save_path_temp:
  "save_path False out = fst (splitext out) @ ''_temp'' @ snd (splitext out)"
  by (simp add: save_path_def split: prod.splits)

lemma save_path_distinct: "save_path False out \<noteq> out"
proof
  assume "save_path False out = out"
  then have "length (save_path False out) = length (fst (splitext out) @ snd (splitext out))"
    by (simp add: splitext_join)
  then show False by (simp add: save_path_temp)
qed

subsection \<open>The run\<close>

lemma process_file_ok:
  assumes "openpyxl_load env inp = Some wb"
  shows "\<exists>st. process_file env (ExcelProcessor inp out) = Inr (workbook_save env out, st) \<and>
     total_rows st = max_row wb \<and> output_file st = out \<and>
     visited (trace st) = [2 ..< max_row wb + 1] \<and>
     success_count st + error_count st + no_data_count st = max_row wb - 1 \<and>
     processed_rows st = success_count st + error_count st \<and>
     saves (trace st) =
       replicate (processed_rows st div SAVE_INTERVAL) (save_path False out) @ [out] \<and>
     last (trace st) = Save out"
proof -
  define st0 where "st0 = (ExcelProcessor inp out)\<lparr>sheet := cells wb, total_rows := max_row wb\<rparr>"
  define rows where "rows = [2 ..< max_row wb + 1]"
  have len: "length rows = max_row wb - 1" by (simp add: rows_def del: upt_Suc)
  have l: "load_workbook env (ExcelProcessor inp out) = (True, st0)"
    using assms by (simp add: load_workbook_def st0_def ExcelProcessor_def)
  have z: "total_rows st0 = max_row wb" "output_file st0 = out" "trace st0 = []"
    "success_count st0 = 0" "error_count st0 = 0" "no_data_count st0 = 0" "processed_rows st0 = 0"
    by (simp_all add: st0_def ExcelProcessor_def)
  have "\<exists>st1. process_rows env rows st0 = Inr st1 \<and>
     total_rows st1 = max_row wb \<and> output_file st1 = out \<and>
     visited (trace st1) = rows \<and>
     success_count st1 + error_count st1 + no_data_count st1 = max_row wb - 1 \<and>
     processed_rows st1 = success_count st1 + error_count st1 \<and>
     saves (trace st1) = replicate (processed_rows st1 div SAVE_INTERVAL) (save_path False out)"
  proof (cases "0 < max_row wb")
    case True
    then have "0 < total_rows st0" using z by simp
    from process_rows_ok [OF this, of env rows] obtain st1 where
      "process_rows env rows st0 = Inr st1"
      "total_rows st1 = total_rows st0" "output_file st1 = output_file st0"
      "visited (trace st1) = visited (trace st0) @ rows"
      "success_count st1 + error_count st1 + no_data_count st1 =
         success_count st0 + error_count st0 + no_data_count st0 + length rows"
      "processed_rows st1 + success_count st0 + error_count st0 =
         processed_rows st0 + success_count st1 + error_count st1"
      "saves (trace st1) = saves (trace st0) @
         replicate (processed_rows st1 div SAVE_INTERVAL - processed_rows st0 div SAVE_INTERVAL)
           (save_path False (output_file st0))"
      by blast
    with z len show ?thesis by simp
  next
    case False
    then have "rows = []" by (simp add: rows_def)
    with False z show ?thesis by simp
  qed
  then obtain st1 where p: "process_rows env rows st0 = Inr st1" and
    q: "total_rows st1 = max_row wb" "output_file st1 = out"
       "visited (trace st1) = rows"
       "success_count st1 + error_count st1 + no_data_count st1 = max_row wb - 1"
       "processed_rows st1 = success_count st1 + error_count st1"
       "saves (trace st1) = replicate (processed_rows st1 div SAVE_INTERVAL) (save_path False out)"
    by blast
  have "process_file env (ExcelProcessor inp out) = Inr (save_workbook env True st1)"
    using l p z by (simp add: process_file_def rows_def del: upt_Suc)
  then show ?thesis using q
    by (simp add: save_workbook_def save_path_def Let_def saves_append visited_append rows_def
        del: upt_Suc)
qed

subsection \<open>Claims about the run\<close>

text \<open>
  C1. Failure isolation. When the \<open>try\<close> block of row \<open>k\<close> raises, the exception is
  caught at the row boundary: the turn of the loop ends normally with the row counted as an
  error, the rows after it are all visited and counted, and no exception leaves the loop. A
  run whose workbook loads visits every row from 2 to the last, counts each of them and ends
  with the save to the output path.
\<close>

theorem failure_isolation:
  "(0 < total_rows st \<and> fst (try_body env k st) = Raised e \<longrightarrow>
      (\<exists>st1 st'. loop_body env k st = Inr st1 \<and>
         error_count st1 = error_count st + 1 \<and> success_count st1 = success_count st \<and>
         no_data_count st1 = no_data_count st \<and>
         process_rows env (k # rest) st = Inr st' \<and>
         visited (trace st') = visited (trace st) @ k # rest \<and>
         error_count st + 1 \<le> error_count st' \<and>
         success_count st' + error_count st' + no_data_count st' =
           success_count st + error_count st + no_data_count st + 1 + length rest)) \<and>
   (openpyxl_load env inp = Some wb \<longrightarrow>
      (\<exists>st. process_file env (ExcelProcessor inp out) = Inr (workbook_save env out, st) \<and>
         visited (trace st) = [2 ..< max_row wb + 1] \<and>
         success_count st + error_count st + no_data_count st = max_row wb - 1 \<and>
         last (trace st) = Save out))"
proof (intro conjI impI)
  assume a: "0 < total_rows st \<and> fst (try_body env k st) = Raised e"
  then have t: "0 < total_rows st" and r: "fst (try_body env k st) = Raised e" by simp_all
  from loop_body_ok [OF t, of env k] r obtain st1 where
    l: "loop_body env k st = Inr st1" "total_rows st1 = total_rows st"
       "visited (trace st1) = visited (trace st) @ [k]"
       "no_data_count st1 = no_data_count st" "success_count st1 = success_count st"
       "error_count st1 = error_count st + 1"
    by auto
  from l t have "0 < total_rows st1" by simp
  from process_rows_ok [OF this, of env rest] obtain st' where
    p: "process_rows env rest st1 = Inr st'"
       "visited (trace st') = visited (trace st1) @ rest"
       "error_count st1 \<le> error_count st'"
       "success_count st' + error_count st' + no_data_count st' =
          success_count st1 + error_count st1 + no_data_count st1 + length rest"
    by blast
  have "process_rows env (k # rest) st = Inr st'" using l p by simp
  with l p show "\<exists>st1 st'. loop_body env k st = Inr st1 \<and>
         error_count st1 = error_count st + 1 \<and> success_count st1 = success_count st \<and>
         no_data_count st1 = no_data_count st \<and>
         process_rows env (k # rest) st = Inr st' \<and>
         visited (trace st') = visited (trace st) @ k # rest \<and>
         error_count st + 1 \<le> error_count st' \<and>
         success_count st' + error_count st' + no_data_count st' =
           success_count st + error_count st + no_data_count st + 1 + length rest"
    by auto
next
  assume "openpyxl_load env inp = Some wb"
  from process_file_ok [OF this, of out]
  show "\<exists>st. process_file env (ExcelProcessor inp out) = Inr (workbook_save env out, st) \<and>
         visited (trace st) = [2 ..< max_row wb + 1] \<and>
         success_count st + error_count st + no_data_count st = max_row wb - 1 \<and>
         last (trace st) = Save out"
    by blast
qed


theorem failure_isolation_witness:
  "(0 < total_rows mixed_loaded \<and> fst (try_body mixed_env 2 mixed_loaded) = Raised AttributeError) \<and>
   (\<exists>st1 st'. loop_body mixed_env 2 mixed_loaded = Inr st1 \<and>
      error_count st1 = error_count mixed_loaded + 1 \<and>
      success_count st1 = success_count mixed_loaded \<and>
      no_data_count st1 = no_data_count mixed_loaded \<and>
      process_rows mixed_env [2, 3, 4] mixed_loaded = Inr st' \<and>
      visited (trace st') = visited (trace mixed_loaded) @ [2, 3, 4] \<and>
      error_count mixed_loaded + 1 \<le> error_count st' \<and>
      success_count st' + error_count st' + no_data_count st' =
        success_count mixed_loaded + error_count mixed_loaded + no_data_count mixed_loaded + 1 +
        length [3, 4 :: nat]) \<and>
   openpyxl_load mixed_env ''in.xlsx'' = Some mixed_workbook \<and>
   (\<exists>st. process_file mixed_env (ExcelProcessor ''in.xlsx'' ''out.xlsx'') =
           Inr (workbook_save mixed_env ''out.xlsx'', st) \<and>
      visited (trace st) = [2 ..< max_row mixed_workbook + 1] \<and>
      success_count st + error_count st + no_data_count st = max_row mixed_workbook - 1 \<and>
      last (trace st) = Save ''out.xlsx'')"
proof -
  have h1: "0 < total_rows mixed_loaded \<and>
      fst (try_body mixed_env 2 mixed_loaded) = Raised AttributeError"
    by code_simp
  have h2: "openpyxl_load mixed_env ''in.xlsx'' = Some mixed_workbook"
    by (simp add: mixed_env_def)
  from failure_isolation [of mixed_loaded mixed_env 2 AttributeError "[3, 4]" "''in.xlsx''"
      mixed_workbook "''out.xlsx''"] h1 h2
  show ?thesis by blast
qed

lemma count_list_replicate_other: "c \<noteq> x \<Longrightarrow> count_list (replicate n c @ [x]) x = 1"
  by (induction n) simp_all

lemma try_body_continue_iff:
  "fst (try_body env i st) = Continue \<longleftrightarrow>
     (\<not> truthy (sheet st (i, 4)) \<or>
      (\<exists>details tr tr'.
         find_oem (session_get env) (strip (str (sheet st (i, 4))))
           (trace st @ [ReadCell i 4, ReadCell i 6]) = (Inr details, tr) \<and>
         all_cross_numbers (session_get env) details {} tr = (Inr {}, tr')))"
  by (auto simp: try_body_def no_data_def log_def Let_def new_description_def
      split: prod.splits sum.splits if_splits cell.splits)

text \<open>
  C7. Checkpoint cadence and path separation. A turn of the loop that brings
  \<open>processed_rows\<close> to a multiple of \<open>SAVE_INTERVAL\<close> ends with a save to the checkpoint
  path, so before the next row is read; any other turn saves nothing. The checkpoint path is
  the output path with \<open>_temp\<close> put before its extension and differs from the output
  path. Over a whole run the saves are one checkpoint for every \<open>SAVE_INTERVAL\<close> processed
  rows and then the output path, once and last.
\<close>

theorem checkpoint_cadence:
  "(0 < total_rows st \<longrightarrow>
      (\<exists>st'. loop_body env i st = Inr st' \<and>
         (if processed_rows st' = processed_rows st + 1 \<and> processed_rows st' mod SAVE_INTERVAL = 0
          then saves (trace st') = saves (trace st) @ [save_path False (output_file st)] \<and>
               last (trace st') = Save (save_path False (output_file st))
          else saves (trace st') = saves (trace st)))) \<and>
   save_path False out = fst (splitext out) @ ''_temp'' @ snd (splitext out) \<and>
   fst (splitext out) @ snd (splitext out) = out \<and>
   save_path False out \<noteq> out \<and> save_path True out = out \<and>
   (openpyxl_load env inp = Some wb \<longrightarrow>
      (\<exists>st. process_file env (ExcelProcessor inp out) = Inr (workbook_save env out, st) \<and>
         saves (trace st) =
           replicate (processed_rows st div SAVE_INTERVAL) (save_path False out) @ [out] \<and>
         count_list (saves (trace st)) out = 1 \<and>
         last (trace st) = Save out))"
proof (intro conjI impI)
  assume t: "0 < total_rows st"
  from loop_body_ok [OF t, of env i] obtain st' where
    l: "loop_body env i st = Inr st'"
       "processed_rows st' =
          processed_rows st + (if fst (try_body env i st) = Continue then 0 else 1)"
       "saves (trace st') = saves (trace st) @ checkpoint st (fst (try_body env i st))"
       "checkpoint st (fst (try_body env i st)) \<noteq> [] \<longrightarrow>
          last (trace st') = Save (save_path False (output_file st))"
    by blast
  then have "if processed_rows st' = processed_rows st + 1 \<and> processed_rows st' mod SAVE_INTERVAL = 0
          then saves (trace st') = saves (trace st) @ [save_path False (output_file st)] \<and>
               last (trace st') = Save (save_path False (output_file st))
          else saves (trace st') = saves (trace st)"
    by (auto simp: checkpoint_def split: if_splits)
  with l(1) show "\<exists>st'. loop_body env i st = Inr st' \<and>
         (if processed_rows st' = processed_rows st + 1 \<and> processed_rows st' mod SAVE_INTERVAL = 0
          then saves (trace st') = saves (trace st) @ [save_path False (output_file st)] \<and>
               last (trace st') = Save (save_path False (output_file st))
          else saves (trace st') = saves (trace st))"
    by blast
next
  show "save_path False out = fst (splitext out) @ ''_temp'' @ snd (splitext out)"
    by (rule save_path_temp)
next
  show "fst (splitext out) @ snd (splitext out) = out" by (rule splitext_join)
next
  show "save_path False out \<noteq> out" by (rule save_path_distinct)
next
  show "save_path True out = out" by (simp add: save_path_def)
next
  assume "openpyxl_load env inp = Some wb"
  from process_file_ok [OF this, of out] obtain st where
    p: "process_file env (ExcelProcessor inp out) = Inr (workbook_save env out, st)"
       "saves (trace st) =
          replicate (processed_rows st div SAVE_INTERVAL) (save_path False out) @ [out]"
       "last (trace st) = Save out"
    by blast
  have "count_list (saves (trace st)) out = 1"
    using p(2) count_list_replicate_other [OF save_path_distinct] by simp
  with p show "\<exists>st. process_file env (ExcelProcessor inp out) = Inr (workbook_save env out, st) \<and>
         saves (trace st) =
           replicate (processed_rows st div SAVE_INTERVAL) (save_path False out) @ [out] \<and>
         count_list (saves (trace st)) out = 1 \<and>
         last (trace st) = Save out"
    by blast
qed

theorem checkpoint_cadence_witness:
  "0 < total_rows at_99 \<and>
   (\<exists>st'. loop_body mixed_env 4 at_99 = Inr st' \<and> processed_rows st' = 100 \<and>
      saves (trace st') = [''out_temp.xlsx''] \<and> last (trace st') = Save ''out_temp.xlsx'') \<and>
   openpyxl_load mixed_env ''in.xlsx'' = Some mixed_workbook \<and>
   (\<exists>st. process_file mixed_env (ExcelProcessor ''in.xlsx'' ''out.xlsx'') =
           Inr (workbook_save mixed_env ''out.xlsx'', st) \<and>
      saves (trace st) =
        replicate (processed_rows st div SAVE_INTERVAL) (save_path False ''out.xlsx'') @
          [''out.xlsx''] \<and>
      count_list (saves (trace st)) ''out.xlsx'' = 1 \<and>
      last (trace st) = Save ''out.xlsx'')"
proof -
  have h1: "0 < total_rows at_99" by code_simp
  have h2: "openpyxl_load mixed_env ''in.xlsx'' = Some mixed_workbook"
    by (simp add: mixed_env_def)
  have e: "case loop_body mixed_env 4 at_99 of Inl e \<Rightarrow> False
           | Inr st' \<Rightarrow> processed_rows st' = 100 \<and> processed_rows at_99 = 99 \<and>
               saves (trace at_99) = [] \<and> output_file at_99 = ''out.xlsx'' \<and>
               save_path False ''out.xlsx'' = ''out_temp.xlsx'' \<and> 100 mod SAVE_INTERVAL = 0"
    by code_simp
  note c = checkpoint_cadence [of at_99 mixed_env 4 "''out.xlsx''" "''in.xlsx''" mixed_workbook]
  from c h1 obtain st' where
    s: "loop_body mixed_env 4 at_99 = Inr st'"
       "if processed_rows st' = processed_rows at_99 + 1 \<and> processed_rows st' mod SAVE_INTERVAL = 0
        then saves (trace st') = saves (trace at_99) @ [save_path False (output_file at_99)] \<and>
             last (trace st') = Save (save_path False (output_file at_99))
        else saves (trace st') = saves (trace at_99)"
    by blast
  from e s have "processed_rows st' = 100 \<and>
      saves (trace st') = [''out_temp.xlsx''] \<and> last (trace st') = Save ''out_temp.xlsx''"
    by simp
  with s(1) have a: "\<exists>st'. loop_body mixed_env 4 at_99 = Inr st' \<and> processed_rows st' = 100 \<and>
      saves (trace st') = [''out_temp.xlsx''] \<and> last (trace st') = Save ''out_temp.xlsx''"
    by blast
  from c h2 have b: "\<exists>st. process_file mixed_env (ExcelProcessor ''in.xlsx'' ''out.xlsx'') =
           Inr (workbook_save mixed_env ''out.xlsx'', st) \<and>
      saves (trace st) =
        replicate (processed_rows st div SAVE_INTERVAL) (save_path False ''out.xlsx'') @
          [''out.xlsx''] \<and>
      count_list (saves (trace st)) ''out.xlsx'' = 1 \<and>
      last (trace st) = Save ''out.xlsx''"
    by blast
  from h1 h2 a b show ?thesis by blast
qed

text \<open>
  C8. The processed-rows counter excludes the rows without data. The \<open>try\<close> block is left
  by \<open>continue\<close> exactly on the three skip paths (blank code, no identifier resolved, empty
  set of cross numbers); such a turn counts the row under \<open>no_data_count\<close> and leaves
  \<open>processed_rows\<close> and the saves as they were. Any other turn adds one to
  \<open>processed_rows\<close> and one to either \<open>success_count\<close> or \<open>error_count\<close>. At the end of a run
  \<open>processed_rows\<close> is the sum of the two, and that sum decides the number of checkpoints.
\<close>

theorem processed_rows_excludes_no_data:
  "(fst (try_body env i st) = Continue \<longleftrightarrow>
      (\<not> truthy (sheet st (i, 4)) \<or>
       (\<exists>tr. find_oem (session_get env) (strip (str (sheet st (i, 4))))
               (trace st @ [ReadCell i 4, ReadCell i 6]) = (Inr [], tr)) \<or>
       (\<exists>details tr tr'.
          find_oem (session_get env) (strip (str (sheet st (i, 4))))
            (trace st @ [ReadCell i 4, ReadCell i 6]) = (Inr details, tr) \<and>
          all_cross_numbers (session_get env) details {} tr = (Inr {}, tr')))) \<and>
   (fst (try_body env i st) = Continue \<longrightarrow>
      (\<exists>st'. loop_body env i st = Inr st' \<and> no_data_count st' = no_data_count st + 1 \<and>
         processed_rows st' = processed_rows st \<and> saves (trace st') = saves (trace st))) \<and>
   (0 < total_rows st \<and> fst (try_body env i st) \<noteq> Continue \<longrightarrow>
      (\<exists>st'. loop_body env i st = Inr st' \<and> no_data_count st' = no_data_count st \<and>
         processed_rows st' = processed_rows st + 1 \<and>
         success_count st' + error_count st' = success_count st + error_count st + 1)) \<and>
   (openpyxl_load env inp = Some wb \<longrightarrow>
      (\<exists>st. process_file env (ExcelProcessor inp out) = Inr (workbook_save env out, st) \<and>
         processed_rows st = success_count st + error_count st \<and>
         saves (trace st) =
           replicate ((success_count st + error_count st) div SAVE_INTERVAL)
             (save_path False out) @ [out]))"
proof (intro conjI impI)
  show "fst (try_body env i st) = Continue \<longleftrightarrow>
      (\<not> truthy (sheet st (i, 4)) \<or>
       (\<exists>tr. find_oem (session_get env) (strip (str (sheet st (i, 4))))
               (trace st @ [ReadCell i 4, ReadCell i 6]) = (Inr [], tr)) \<or>
       (\<exists>details tr tr'.
          find_oem (session_get env) (strip (str (sheet st (i, 4))))
            (trace st @ [ReadCell i 4, ReadCell i 6]) = (Inr details, tr) \<and>
          all_cross_numbers (session_get env) details {} tr = (Inr {}, tr')))"
    unfolding try_body_continue_iff by auto
next
  assume c: "fst (try_body env i st) = Continue"
  obtain st1 where t: "try_body env i st = (Continue, st1)"
    using c by (cases "try_body env i st") simp
  from try_body_frame [OF t] t
  show "\<exists>st'. loop_body env i st = Inr st' \<and> no_data_count st' = no_data_count st + 1 \<and>
         processed_rows st' = processed_rows st \<and> saves (trace st') = saves (trace st)"
    by (simp add: loop_body_def)
next
  assume a: "0 < total_rows st \<and> fst (try_body env i st) \<noteq> Continue"
  then have t: "0 < total_rows st" by simp
  from loop_body_ok [OF t, of env i] a
  show "\<exists>st'. loop_body env i st = Inr st' \<and> no_data_count st' = no_data_count st \<and>
         processed_rows st' = processed_rows st + 1 \<and>
         success_count st' + error_count st' = success_count st + error_count st + 1"
    by auto
next
  assume "openpyxl_load env inp = Some wb"
  from process_file_ok [OF this, of out] obtain st where
    p: "process_file env (ExcelProcessor inp out) = Inr (workbook_save env out, st)"
       "processed_rows st = success_count st + error_count st"
       "saves (trace st) =
          replicate (processed_rows st div SAVE_INTERVAL) (save_path False out) @ [out]"
    by blast
  then show "\<exists>st. process_file env (ExcelProcessor inp out) = Inr (workbook_save env out, st) \<and>
         processed_rows st = success_count st + error_count st \<and>
         saves (trace st) =
           replicate ((success_count st + error_count st) div SAVE_INTERVAL)
             (save_path False out) @ [out]"
    by auto
qed

theorem processed_rows_excludes_no_data_witness:
  "fst (try_body mixed_env 3 mixed_loaded) = Continue \<and>
   (\<exists>st'. loop_body mixed_env 3 mixed_loaded = Inr st' \<and>
      no_data_count st' = no_data_count mixed_loaded + 1 \<and>
      processed_rows st' = processed_rows mixed_loaded \<and>
      saves (trace st') = saves (trace mixed_loaded)) \<and>
   (0 < total_rows mixed_loaded \<and> fst (try_body mixed_env 4 mixed_loaded) \<noteq> Continue) \<and>
   (\<exists>st'. loop_body mixed_env 4 mixed_loaded = Inr st' \<and>
      no_data_count st' = no_data_count mixed_loaded \<and>
      processed_rows st' = processed_rows mixed_loaded + 1 \<and>
      success_count st' + error_count st' =
        success_count mixed_loaded + error_count mixed_loaded + 1) \<and>
   openpyxl_load mixed_env ''in.xlsx'' = Some mixed_workbook \<and>
   (\<exists>st. process_file mixed_env (ExcelProcessor ''in.xlsx'' ''out.xlsx'') =
           Inr (workbook_save mixed_env ''out.xlsx'', st) \<and>
      processed_rows st = success_count st + error_count st \<and>
      saves (trace st) =
        replicate ((success_count st + error_count st) div SAVE_INTERVAL)
          (save_path False ''out.xlsx'') @ [''out.xlsx''])"
proof -
  have h1: "fst (try_body mixed_env 3 mixed_loaded) = Continue" by code_simp
  have h2: "0 < total_rows mixed_loaded \<and> fst (try_body mixed_env 4 mixed_loaded) \<noteq> Continue"
    by code_simp
  have h3: "openpyxl_load mixed_env ''in.xlsx'' = Some mixed_workbook"
    by (simp add: mixed_env_def)
  from processed_rows_excludes_no_data [of mixed_env 3 mixed_loaded "''in.xlsx''" mixed_workbook
      "''out.xlsx''"] h1 h3
  have a: "(\<exists>st'. loop_body mixed_env 3 mixed_loaded = Inr st' \<and>
      no_data_count st' = no_data_count mixed_loaded + 1 \<and>
      processed_rows st' = processed_rows mixed_loaded \<and>
      saves (trace st') = saves (trace mixed_loaded)) \<and>
     (\<exists>st. process_file mixed_env (ExcelProcessor ''in.xlsx'' ''out.xlsx'') =
           Inr (workbook_save mixed_env ''out.xlsx'', st) \<and>
      processed_rows st = success_count st + error_count st \<and>
      saves (trace st) =
        replicate ((success_count st + error_count st) div SAVE_INTERVAL)
          (save_path False ''out.xlsx'') @ [''out.xlsx''])"
    by blast
  from processed_rows_excludes_no_data [of mixed_env 4 mixed_loaded "''in.xlsx''" mixed_workbook
      "''out.xlsx''"] h2
  have b: "\<exists>st'. loop_body mixed_env 4 mixed_loaded = Inr st' \<and>
      no_data_count st' = no_data_count mixed_loaded \<and>
      processed_rows st' = processed_rows mixed_loaded + 1 \<and>
      success_count st' + error_count st' =
        success_count mixed_loaded + error_count mixed_loaded + 1"
    by blast
  from h1 h2 h3 a b show ?thesis by blast
qed

text \<open>
  C9. Outcome partition. Every turn of the loop adds one to exactly one of
  \<open>success_count\<close>, \<open>error_count\<close> and \<open>no_data_count\<close> and leaves the other two; no counter
  is smaller after more rows than after fewer; at the end of a run the three add up to the
  number of rows from 2 to the last, all of which were visited.
\<close>

theorem outcome_partition:
  "(0 < total_rows st \<longrightarrow>
      (\<exists>st'. loop_body env i st = Inr st' \<and>
         ((success_count st' = success_count st + 1 \<and> error_count st' = error_count st \<and>
           no_data_count st' = no_data_count st) \<or>
          (success_count st' = success_count st \<and> error_count st' = error_count st + 1 \<and>
           no_data_count st' = no_data_count st) \<or>
          (success_count st' = success_count st \<and> error_count st' = error_count st \<and>
           no_data_count st' = no_data_count st + 1)))) \<and>
   (0 < total_rows st \<longrightarrow>
      (\<exists>st1 st2. process_rows env xs st = Inr st1 \<and> process_rows env (xs @ ys) st = Inr st2 \<and>
         success_count st \<le> success_count st1 \<and> success_count st1 \<le> success_count st2 \<and>
         error_count st \<le> error_count st1 \<and> error_count st1 \<le> error_count st2 \<and>
         no_data_count st \<le> no_data_count st1 \<and> no_data_count st1 \<le> no_data_count st2)) \<and>
   (openpyxl_load env inp = Some wb \<longrightarrow>
      (\<exists>st. process_file env (ExcelProcessor inp out) = Inr (workbook_save env out, st) \<and>
         visited (trace st) = [2 ..< max_row wb + 1] \<and>
         success_count st + error_count st + no_data_count st = length [2 ..< max_row wb + 1]))"
proof (intro conjI impI)
  assume t: "0 < total_rows st"
  from loop_body_ok [OF t, of env i]
  show "\<exists>st'. loop_body env i st = Inr st' \<and>
         ((success_count st' = success_count st + 1 \<and> error_count st' = error_count st \<and>
           no_data_count st' = no_data_count st) \<or>
          (success_count st' = success_count st \<and> error_count st' = error_count st + 1 \<and>
           no_data_count st' = no_data_count st) \<or>
          (success_count st' = success_count st \<and> error_count st' = error_count st \<and>
           no_data_count st' = no_data_count st + 1))"
    by (cases "fst (try_body env i st)") auto
next
  assume t: "0 < total_rows st"
  from process_rows_ok [OF t, of env xs] obtain st1 where
    a: "process_rows env xs st = Inr st1" "total_rows st1 = total_rows st"
       "success_count st \<le> success_count st1" "error_count st \<le> error_count st1"
       "no_data_count st \<le> no_data_count st1"
    by blast
  from a t have "0 < total_rows st1" by simp
  from process_rows_ok [OF this, of env ys] obtain st2 where
    b: "process_rows env ys st1 = Inr st2"
       "success_count st1 \<le> success_count st2" "error_count st1 \<le> error_count st2"
       "no_data_count st1 \<le> no_data_count st2"
    by blast
  have "process_rows env (xs @ ys) st = Inr st2"
    using a(1) b(1) by (simp add: process_rows_append)
  with a b show "\<exists>st1 st2. process_rows env xs st = Inr st1 \<and>
         process_rows env (xs @ ys) st = Inr st2 \<and>
         success_count st \<le> success_count st1 \<and> success_count st1 \<le> success_count st2 \<and>
         error_count st \<le> error_count st1 \<and> error_count st1 \<le> error_count st2 \<and>
         no_data_count st \<le> no_data_count st1 \<and> no_data_count st1 \<le> no_data_count st2"
    by blast
next
  assume "openpyxl_load env inp = Some wb"
  from process_file_ok [OF this, of out] obtain st where
    p: "process_file env (ExcelProcessor inp out) = Inr (workbook_save env out, st)"
       "visited (trace st) = [2 ..< max_row wb + 1]"
       "success_count st + error_count st + no_data_count st = max_row wb - 1"
    by blast
  have "length [2 ..< max_row wb + 1] = max_row wb - 1" by (simp del: upt_Suc)
  with p show "\<exists>st. process_file env (ExcelProcessor inp out) = Inr (workbook_save env out, st) \<and>
         visited (trace st) = [2 ..< max_row wb + 1] \<and>
         success_count st + error_count st + no_data_count st = length [2 ..< max_row wb + 1]"
    by auto
qed

theorem outcome_partition_witness:
  "0 < total_rows mixed_loaded \<and>
   (\<exists>st'. loop_body mixed_env 2 mixed_loaded = Inr st' \<and>
         ((success_count st' = success_count mixed_loaded + 1 \<and>
           error_count st' = error_count mixed_loaded \<and>
           no_data_count st' = no_data_count mixed_loaded) \<or>
          (success_count st' = success_count mixed_loaded \<and>
           error_count st' = error_count mixed_loaded + 1 \<and>
           no_data_count st' = no_data_count mixed_loaded) \<or>
          (success_count st' = success_count mixed_loaded \<and>
           error_count st' = error_count mixed_loaded \<and>
           no_data_count st' = no_data_count mixed_loaded + 1))) \<and>
   (\<exists>st1 st2. process_rows mixed_env [2] mixed_loaded = Inr st1 \<and>
         process_rows mixed_env ([2] @ [3, 4]) mixed_loaded = Inr st2 \<and>
         success_count mixed_loaded \<le> success_count st1 \<and> success_count st1 \<le> success_count st2 \<and>
         error_count mixed_loaded \<le> error_count st1 \<and> error_count st1 \<le> error_count st2 \<and>
         no_data_count mixed_loaded \<le> no_data_count st1 \<and>
         no_data_count st1 \<le> no_data_count st2) \<and>
   openpyxl_load mixed_env ''in.xlsx'' = Some mixed_workbook \<and>
   (\<exists>st. process_file mixed_env (ExcelProcessor ''in.xlsx'' ''out.xlsx'') =
           Inr (workbook_save mixed_env ''out.xlsx'', st) \<and>
         visited (trace st) = [2 ..< max_row mixed_workbook + 1] \<and>
         success_count st + error_count st + no_data_count st =
           length [2 ..< max_row mixed_workbook + 1])"
proof -
  have h1: "0 < total_rows mixed_loaded" by code_simp
  have h2: "openpyxl_load mixed_env ''in.xlsx'' = Some mixed_workbook"
    by (simp add: mixed_env_def)
  from outcome_partition [of mixed_loaded mixed_env 2 "[2]" "[3, 4]" "''in.xlsx''" mixed_workbook
      "''out.xlsx''"] h1 h2
  show ?thesis by blast
qed

subsection \<open>Claims about one row\<close>

lemma find_oem_pair:
  "fst (find_oem sess c tr) = r \<Longrightarrow> find_oem sess c tr = (r, tr @ [Get (find_oem_params c)])"
  using find_oem_trace [of sess c tr] by (cases "find_oem sess c tr") simp

lemma find_replacements_pair:
  "fst (find_replacements sess d tr) = r \<Longrightarrow>
     find_replacements sess d tr = (r, tr @ [Get (find_replacements_params d)])"
  using find_replacements_trace [of sess d tr] by (cases "find_replacements sess d tr") simp

lemma strip_12345: "strip ''12345'' = ''12345''"
  by code_simp

lemma text_X123: "cross_numbers_text {''X1'', ''X2'', ''X3''} = ''X1, X2, X3''"
  by code_simp

text \<open>
  C2. The end-to-end scenario. A row whose code is \<open>12345\<close> and whose description is
  empty, where the code resolves to records with the identifiers \<open>d1, d2\<close> and the
  replacements of \<open>d1\<close> carry the codes \<open>X2, X1\<close> and those of \<open>d2\<close> the codes
  \<open>X1, X3\<close>: the description written is \<open>X1, X2, X3\<close> and the row is a success.
\<close>

theorem end_to_end_scenario:
  fixes rs1 rs2 :: "replacement_info list"
  assumes code: "sheet st (i, 4) = Text ''12345''"
    and desc: "sheet st (i, 6) = NoneValue \<or> sheet st (i, 6) = Text []"
    and oem: "\<forall>tr. fst (find_oem (session_get env) ''12345'' tr) = Inr details"
    and ids: "map detailid details = [Some ''d1'', Some ''d2'']"
    and r1: "\<forall>tr. fst (find_replacements (session_get env) ''d1'' tr) = Inr rs1"
    and c1: "map formattedoem rs1 = [Some ''X2'', Some ''X1'']"
    and r2: "\<forall>tr. fst (find_replacements (session_get env) ''d2'' tr) = Inr rs2"
    and c2: "map formattedoem rs2 = [Some ''X1'', Some ''X3'']"
  shows "\<exists>st'. try_body env i st = (Completed, st') \<and>
           sheet st' (i, 6) = Text ''X1, X2, X3'' \<and>
           success_count st' = success_count st + 1 \<and>
           error_count st' = error_count st \<and> no_data_count st' = no_data_count st"
proof -
  from ids obtain a b where d: "details = [a, b]" and
    da: "detailid a = Some ''d1''" and db: "detailid b = Some ''d2''"
    by (auto simp: map_eq_Cons_conv)
  have fo: "\<And>tr. find_oem (session_get env) ''12345'' tr =
      (Inr details, tr @ [Get (find_oem_params ''12345'')])"
    using oem by (intro find_oem_pair) simp
  have f1: "\<And>tr. find_replacements (session_get env) ''d1'' tr =
      (Inr rs1, tr @ [Get (find_replacements_params ''d1'')])"
    using r1 by (intro find_replacements_pair) simp
  have f2: "\<And>tr. find_replacements (session_get env) ''d2'' tr =
      (Inr rs2, tr @ [Get (find_replacements_params ''d2'')])"
    using r2 by (intro find_replacements_pair) simp
  have s1: "formattedoem ` set rs1 = {Some ''X2'', Some ''X1''}"
  proof -
    have "set (map formattedoem rs1) = set [Some ''X2'', Some ''X1'']"
      using c1 by (rule arg_cong)
    then show ?thesis by simp
  qed
  have s2: "formattedoem ` set rs2 = {Some ''X1'', Some ''X3''}"
  proof -
    have "set (map formattedoem rs2) = set [Some ''X1'', Some ''X3'']"
      using c2 by (rule arg_cong)
    then show ?thesis by simp
  qed
  have codes: "add_replacements rs2 (add_replacements rs1 {}) = {''X1'', ''X2'', ''X3''}"
    unfolding add_replacements_eq s1 s2 by auto
  have ac: "\<And>tr. \<exists>tr'. all_cross_numbers (session_get env) details {} tr =
      (Inr {''X1'', ''X2'', ''X3''}, tr')"
    using d da db f1 f2 codes by simp
  define tr0 where "tr0 = trace st @ [ReadCell i 4, ReadCell i 6, Get (find_oem_params ''12345'')]"
  from ac [of tr0] obtain tr' where
    a: "all_cross_numbers (session_get env) details {} tr0 = (Inr {''X1'', ''X2'', ''X3''}, tr')"
    by blast
  have ne: "details \<noteq> []" using d by simp
  have nt: "\<not> truthy (sheet st (i, 6))" using desc by auto
  have "try_body env i st =
      (Completed, st\<lparr>trace := trace st @ [ReadCell i 4, ReadCell i 6],
                     sheet := (sheet st)((i, 6) := Text ''X1, X2, X3''),
                     trace := tr' @ [WriteCell i 6 ''X1, X2, X3''],
                     success_count := success_count st + 1\<rparr>)"
    using code nt fo ne a
    by (simp add: try_body_def Let_def log_def strip_12345 tr0_def new_description_def text_X123)
  then show ?thesis by simp
qed

theorem end_to_end_scenario_witness:
  "sheet scenario_loaded (2, 4) = Text ''12345'' \<and>
   (sheet scenario_loaded (2, 6) = NoneValue \<or> sheet scenario_loaded (2, 6) = Text []) \<and>
   (\<forall>tr. fst (find_oem (session_get scenario_env) ''12345'' tr) =
      Inr (map detail_of (findall ''detail'' scenario_oem))) \<and>
   map detailid (map detail_of (findall ''detail'' scenario_oem)) = [Some ''d1'', Some ''d2''] \<and>
   (\<forall>tr. fst (find_replacements (session_get scenario_env) ''d1'' tr) =
      Inr (map replacement_of (findall ''row'' scenario_d1))) \<and>
   map formattedoem (map replacement_of (findall ''row'' scenario_d1)) =
     [Some ''X2'', Some ''X1''] \<and>
   (\<forall>tr. fst (find_replacements (session_get scenario_env) ''d2'' tr) =
      Inr (map replacement_of (findall ''row'' scenario_d2))) \<and>
   map formattedoem (map replacement_of (findall ''row'' scenario_d2)) =
     [Some ''X1'', Some ''X3''] \<and>
   (\<exists>st'. try_body scenario_env 2 scenario_loaded = (Completed, st') \<and>
      sheet st' (2, 6) = Text ''X1, X2, X3'' \<and>
      success_count st' = success_count scenario_loaded + 1 \<and>
      error_count st' = error_count scenario_loaded \<and>
      no_data_count st' = no_data_count scenario_loaded) \<and>
   (case process_file scenario_env (ExcelProcessor ''in.xlsx'' ''out.xlsx'') of
      Inl e \<Rightarrow> False
    | Inr (ok, st) \<Rightarrow> sheet st (2, 6) = Text ''X1, X2, X3'' \<and> success_count st = 1 \<and>
        error_count st = 0 \<and> no_data_count st = 0)"
proof -
  have h1: "sheet scenario_loaded (2, 4) = Text ''12345''" by code_simp
  have h2: "sheet scenario_loaded (2, 6) = NoneValue \<or> sheet scenario_loaded (2, 6) = Text []"
    by code_simp
  have h3: "\<forall>tr. fst (find_oem (session_get scenario_env) ''12345'' tr) =
      Inr (map detail_of (findall ''detail'' scenario_oem))"
    by (simp add: find_oem_def Let_def scenario_env_def scenario_session_def
        raise_for_status_def fromstring_def)
  have h4: "map detailid (map detail_of (findall ''detail'' scenario_oem)) =
      [Some ''d1'', Some ''d2'']"
    by code_simp
  have h5: "\<forall>tr. fst (find_replacements (session_get scenario_env) ''d1'' tr) =
      Inr (map replacement_of (findall ''row'' scenario_d1))"
    by (simp add: find_replacements_def Let_def scenario_env_def scenario_session_def
        raise_for_status_def fromstring_def find_replacements_params_def find_oem_params_def)
  have h6: "map formattedoem (map replacement_of (findall ''row'' scenario_d1)) =
     [Some ''X2'', Some ''X1'']"
    by code_simp
  have h7: "\<forall>tr. fst (find_replacements (session_get scenario_env) ''d2'' tr) =
      Inr (map replacement_of (findall ''row'' scenario_d2))"
    by (simp add: find_replacements_def Let_def scenario_env_def scenario_session_def
        raise_for_status_def fromstring_def find_replacements_params_def find_oem_params_def)
  have h8: "map formattedoem (map replacement_of (findall ''row'' scenario_d2)) =
     [Some ''X1'', Some ''X3'']"
    by code_simp
  have run: "case process_file scenario_env (ExcelProcessor ''in.xlsx'' ''out.xlsx'') of
      Inl e \<Rightarrow> False
    | Inr (ok, st) \<Rightarrow> sheet st (2, 6) = Text ''X1, X2, X3'' \<and> success_count st = 1 \<and>
        error_count st = 0 \<and> no_data_count st = 0"
    by code_simp
  from end_to_end_scenario [OF h1 h2 h3 h4 h5 h6 h7 h8]
  have "\<exists>st'. try_body scenario_env 2 scenario_loaded = (Completed, st') \<and>
      sheet st' (2, 6) = Text ''X1, X2, X3'' \<and>
      success_count st' = success_count scenario_loaded + 1 \<and>
      error_count st' = error_count scenario_loaded \<and>
      no_data_count st' = no_data_count scenario_loaded" .
  with h1 h2 h3 h4 h5 h6 h7 h8 run show ?thesis by blast
qed

text \<open>
  A code that consists of whitespace is not skipped: \<open>if not article\<close> is tested before
  \<open>strip\<close>, so the row goes on and asks the service for the empty code.
\<close>

theorem blank_code_counterexample:
  "sheet spaces_loaded (2, 4) = Text ''  '' \<and> strip ''  '' = [] \<and>
   requests_of (trace spaces_loaded) = [] \<and>
   requests_of (trace (snd (try_body mixed_env 2 spaces_loaded))) = [find_oem_params []]"
  by code_simp

text \<open>
  C5, amended. Skip without mutation for absent and empty codes: when the value of the
  row's source cell is falsy (no value, the empty string, or another falsy value) the row
  sends no request, leaves the sheet as it is and is counted under \<open>no_data_count\<close>.
\<close>

theorem empty_code_skipped:
  "\<not> truthy (sheet st (i, 4)) \<Longrightarrow>
     \<exists>st'. try_body env i st = (Continue, st') \<and> loop_body env i st = Inr st' \<and>
       trace st' = trace st @ [ReadCell i 4] \<and>
       requests_of (trace st') = requests_of (trace st) \<and>
       sheet st' = sheet st \<and> no_data_count st' = no_data_count st + 1 \<and>
       success_count st' = success_count st \<and> error_count st' = error_count st \<and>
       processed_rows st' = processed_rows st"
  by (simp add: try_body_def loop_body_def no_data_def log_def Let_def requests_of_append)

theorem empty_code_skipped_witness:
  "\<not> truthy (sheet mixed_loaded (3, 4)) \<and>
   (\<exists>st'. try_body mixed_env 3 mixed_loaded = (Continue, st') \<and>
       loop_body mixed_env 3 mixed_loaded = Inr st' \<and>
       trace st' = trace mixed_loaded @ [ReadCell 3 4] \<and>
       requests_of (trace st') = requests_of (trace mixed_loaded) \<and>
       sheet st' = sheet mixed_loaded \<and> no_data_count st' = no_data_count mixed_loaded + 1 \<and>
       success_count st' = success_count mixed_loaded \<and>
       error_count st' = error_count mixed_loaded \<and>
       processed_rows st' = processed_rows mixed_loaded)"
proof -
  have h: "\<not> truthy (sheet mixed_loaded (3, 4))" by code_simp
  from empty_code_skipped [OF h, of mixed_env] h show ?thesis by blast
qed

subsection \<open>The set of cross numbers\<close>



lemma all_cross_numbers_no_codes:
  assumes "\<forall>detail\<in>set details. \<forall>d tr. detailid detail = Some d \<and> d \<noteq> [] \<longrightarrow>
      (\<exists>rs. fst (find_replacements sess d tr) = Inr rs \<and>
         (\<forall>r\<in>set rs. formattedoem r = None \<or> formattedoem r = Some []))"
  shows "\<exists>tr'. all_cross_numbers sess details acc tr = (Inr acc, tr')"
  using assms
proof (induction details arbitrary: tr)
  case Nil
  then show ?case by simp
next
  case (Cons x xs)
  then have ih: "\<And>tr. \<exists>tr'. all_cross_numbers sess xs acc tr = (Inr acc, tr')"
    by simp
  show ?case
  proof (cases "detailid x")
    case None
    with ih show ?thesis by simp
  next
    case (Some d)
    show ?thesis
    proof (cases "d = []")
      case True
      with Some ih show ?thesis by simp
    next
      case False
      from Cons.prems Some False obtain rs where
        r: "fst (find_replacements sess d (tr @ [Sleep])) = Inr rs" and
        n: "\<forall>r\<in>set rs. formattedoem r = None \<or> formattedoem r = Some []"
        by (metis list.set_intros(1))
      have a: "add_replacements rs acc = acc"
        using n by (auto simp: add_replacements_eq)
      from find_replacements_pair [OF r] Some False a ih show ?thesis by simp
    qed
  qed
qed

lemma nocode_fetch:
  "fst (find_replacements nocode_session d tr) =
     Inr (map replacement_of (findall ''row'' nocode_rows))"
  by (simp add: find_replacements_def Let_def nocode_session_def raise_for_status_def
      fromstring_def find_replacements_params_def find_oem_params_def)

lemma nocode_lack:
  "\<forall>r\<in>set (map replacement_of (findall ''row'' nocode_rows)).
     formattedoem r = None \<or> formattedoem r = Some []"
  by code_simp

text \<open>
  C10. Replacement records without a normalized code are left out: the inner loop adds to
  the set exactly the values of \<open>formattedoem\<close> that are present and not empty. A row
  whose code resolves to records and for whose identifiers every fetch returns only records
  without the code is left by \<open>continue\<close>: it is counted under \<open>no_data_count\<close> and the
  sheet stays as it was.
\<close>

theorem missing_codes_excluded:
  "add_replacements rs acc = acc \<union> {c. c \<noteq> [] \<and> Some c \<in> formattedoem ` set rs} \<and>
   (truthy (sheet st (i, 4)) \<and>
    find_oem (session_get env) (strip (str (sheet st (i, 4))))
      (trace st @ [ReadCell i 4, ReadCell i 6]) = (Inr details, tr) \<and>
    (\<forall>detail\<in>set details. \<forall>d tr. detailid detail = Some d \<and> d \<noteq> [] \<longrightarrow>
       (\<exists>rs. fst (find_replacements (session_get env) d tr) = Inr rs \<and>
          (\<forall>r\<in>set rs. formattedoem r = None \<or> formattedoem r = Some [])))
    \<longrightarrow> (\<exists>st'. try_body env i st = (Continue, st') \<and> sheet st' = sheet st \<and>
           no_data_count st' = no_data_count st + 1 \<and>
           success_count st' = success_count st \<and> error_count st' = error_count st))"
proof (intro conjI impI)
  show "add_replacements rs acc = acc \<union> {c. c \<noteq> [] \<and> Some c \<in> formattedoem ` set rs}"
    by (rule add_replacements_eq)
next
  assume a: "truthy (sheet st (i, 4)) \<and>
    find_oem (session_get env) (strip (str (sheet st (i, 4))))
      (trace st @ [ReadCell i 4, ReadCell i 6]) = (Inr details, tr) \<and>
    (\<forall>detail\<in>set details. \<forall>d tr. detailid detail = Some d \<and> d \<noteq> [] \<longrightarrow>
       (\<exists>rs. fst (find_replacements (session_get env) d tr) = Inr rs \<and>
          (\<forall>r\<in>set rs. formattedoem r = None \<or> formattedoem r = Some [])))"
  then have f: "find_oem (session_get env) (strip (str (sheet st (i, 4))))
      (trace st @ [ReadCell i 4, ReadCell i 6]) = (Inr details, tr)"
    and n: "\<forall>detail\<in>set details. \<forall>d tr. detailid detail = Some d \<and> d \<noteq> [] \<longrightarrow>
       (\<exists>rs. fst (find_replacements (session_get env) d tr) = Inr rs \<and>
          (\<forall>r\<in>set rs. formattedoem r = None \<or> formattedoem r = Some []))"
    by blast+
  from all_cross_numbers_no_codes [OF n, of "{}" tr] obtain tr' where
    c: "all_cross_numbers (session_get env) details {} tr = (Inr {}, tr')"
    by blast
  have "fst (try_body env i st) = Continue"
    unfolding try_body_continue_iff using f c by blast
  then obtain st' where t: "try_body env i st = (Continue, st')"
    by (cases "try_body env i st") simp
  from try_body_frame [OF t] t
  show "\<exists>st'. try_body env i st = (Continue, st') \<and> sheet st' = sheet st \<and>
           no_data_count st' = no_data_count st + 1 \<and>
           success_count st' = success_count st \<and> error_count st' = error_count st"
    by simp
qed

theorem missing_codes_excluded_witness:
  "(truthy (sheet scenario_loaded (2, 4)) \<and>
    find_oem (session_get nocode_env) (strip (str (sheet scenario_loaded (2, 4))))
      (trace scenario_loaded @ [ReadCell 2 4, ReadCell 2 6]) =
      (Inr (map detail_of (findall ''detail'' scenario_oem)),
       trace scenario_loaded @ [ReadCell 2 4, ReadCell 2 6, Get (find_oem_params ''12345'')]) \<and>
    (\<forall>d tr. fst (find_replacements (session_get nocode_env) d tr) =
       Inr (map replacement_of (findall ''row'' nocode_rows)))) \<and>
   map formattedoem (map replacement_of (findall ''row'' nocode_rows)) = [None, Some []] \<and>
   (\<exists>st'. try_body nocode_env 2 scenario_loaded = (Continue, st') \<and>
      sheet st' = sheet scenario_loaded \<and>
      no_data_count st' = no_data_count scenario_loaded + 1 \<and>
      success_count st' = success_count scenario_loaded \<and>
      error_count st' = error_count scenario_loaded)"
proof -
  have h1: "truthy (sheet scenario_loaded (2, 4))" by code_simp
  have h2: "find_oem (session_get nocode_env) (strip (str (sheet scenario_loaded (2, 4))))
      (trace scenario_loaded @ [ReadCell 2 4, ReadCell 2 6]) =
      (Inr (map detail_of (findall ''detail'' scenario_oem)),
       trace scenario_loaded @ [ReadCell 2 4, ReadCell 2 6, Get (find_oem_params ''12345'')])"
    by code_simp
  have s: "session_get nocode_env = nocode_session" by (simp add: nocode_env_def)
  have h3: "\<forall>detail\<in>set (map detail_of (findall ''detail'' scenario_oem)).
       \<forall>d tr. detailid detail = Some d \<and> d \<noteq> [] \<longrightarrow>
       (\<exists>rs. fst (find_replacements (session_get nocode_env) d tr) = Inr rs \<and>
          (\<forall>r\<in>set rs. formattedoem r = None \<or> formattedoem r = Some []))"
    unfolding s using nocode_fetch nocode_lack by blast
  have e: "map formattedoem (map replacement_of (findall ''row'' nocode_rows)) = [None, Some []]"
    by code_simp
  from missing_codes_excluded [of _ _ scenario_loaded 2 nocode_env
      "map detail_of (findall ''detail'' scenario_oem)"
      "trace scenario_loaded @ [ReadCell 2 4, ReadCell 2 6, Get (find_oem_params ''12345'')]"]
    h1 h2 h3
  have "\<exists>st'. try_body nocode_env 2 scenario_loaded = (Continue, st') \<and>
      sheet st' = sheet scenario_loaded \<and>
      no_data_count st' = no_data_count scenario_loaded + 1 \<and>
      success_count st' = success_count scenario_loaded \<and>
      error_count st' = error_count scenario_loaded"
    by blast
  moreover have "\<forall>d tr. fst (find_replacements (session_get nocode_env) d tr) =
       Inr (map replacement_of (findall ''row'' nocode_rows))"
    unfolding s using nocode_fetch by blast
  ultimately show ?thesis using h1 h2 e by blast
qed








end
